theory Spec2Isabelle
  imports
    Complex_Main
    "HOL-Library.Char_ord"
    "HOL-Library.List_Lexorder"
    "HOL-Library.Product_Lexorder"
    "HOL-Library.Multiset"
begin

section \<open>Python and pandas values\<close>

text \<open>
  The pipeline of the repository consists of four scripts: \<^verbatim>\<open>collect_data.py\<close> (the
  one-file pipeline with its own parser, backfill, merge and orchestrator),
  \<^verbatim>\<open>initial_raw_data.py\<close> (chunked backfill), \<^verbatim>\<open>update_raw_data.py\<close> (incremental
  update) and \<^verbatim>\<open>process_data.py\<close> (derived columns). Exceptions are values of
  \<open>error\<close>; a function that can raise returns \<open>error + 'a\<close>.
\<close>

datatype error = KeyError | TypeError | ValueError | IndexError

text \<open>Sequencing: the first exception raised ends the run.\<close>

definition and_then :: "error + 'a \<Rightarrow> ('a \<Rightarrow> error + 'b) \<Rightarrow> error + 'b" where
  "and_then m f = (case m of Inl e \<Rightarrow> Inl e | Inr x \<Rightarrow> f x)"

text \<open>
  A float64 cell. Finite values are exact rationals: the binary rounding error of IEEE
  doubles and overflow are not modelled, the special values are. The sign of zero is
  not modelled either, so a non-zero value divided by zero is infinite with the sign of
  the dividend.
\<close>

datatype num = Fin rat | PInf | NInf | NaN

fun num_mul :: "num \<Rightarrow> num \<Rightarrow> num" where
  "num_mul NaN y = NaN"
| "num_mul x NaN = NaN"
| "num_mul (Fin a) (Fin b) = Fin (a * b)"
| "num_mul (Fin a) PInf = (if a = 0 then NaN else if 0 < a then PInf else NInf)"
| "num_mul (Fin a) NInf = (if a = 0 then NaN else if 0 < a then NInf else PInf)"
| "num_mul PInf (Fin b) = (if b = 0 then NaN else if 0 < b then PInf else NInf)"
| "num_mul NInf (Fin b) = (if b = 0 then NaN else if 0 < b then NInf else PInf)"
| "num_mul PInf PInf = PInf"
| "num_mul PInf NInf = NInf"
| "num_mul NInf PInf = NInf"
| "num_mul NInf NInf = PInf"

fun num_div :: "num \<Rightarrow> num \<Rightarrow> num" where
  "num_div NaN y = NaN"
| "num_div x NaN = NaN"
| "num_div (Fin a) (Fin b) =
     (if b = 0 then (if a = 0 then NaN else if 0 < a then PInf else NInf) else Fin (a / b))"
| "num_div (Fin a) PInf = Fin 0"
| "num_div (Fin a) NInf = Fin 0"
| "num_div PInf (Fin b) = (if 0 \<le> b then PInf else NInf)"
| "num_div NInf (Fin b) = (if 0 \<le> b then NInf else PInf)"
| "num_div PInf PInf = NaN"
| "num_div PInf NInf = NaN"
| "num_div NInf PInf = NaN"
| "num_div NInf NInf = NaN"

text \<open>
  \<^verbatim>\<open>Series.round(k)\<close> and the builtin \<^verbatim>\<open>round(series)\<close> (which is
  \<^verbatim>\<open>Series.round(0)\<close>) go through numpy: scale by \<open>10 ^ k\<close>, round half to even,
  scale back.
\<close>

definition rint :: "rat \<Rightarrow> int" where
  "rint x = (let f = \<lfloor>x\<rfloor>; r = x - of_int f in
     if r < 1 / 2 then f else if 1 / 2 < r then f + 1 else if even f then f else f + 1)"

definition round_dec :: "nat \<Rightarrow> rat \<Rightarrow> rat" where
  "round_dec k x = of_int (rint (x * 10 ^ k)) / 10 ^ k"

fun num_round :: "nat \<Rightarrow> num \<Rightarrow> num" where
  "num_round k (Fin x) = Fin (round_dec k x)"
| "num_round k x = x"

text \<open>A cell of a DataFrame: a string (object dtype) or a float.\<close>

datatype cell = Str string | Num num

text \<open>
  A DataFrame with a \<^verbatim>\<open>Date\<close> column: the names of the other columns in order, and the
  rows in order, each row its date and its cells by column name. The type of the date
  is \<open>string\<close> before \<^verbatim>\<open>pd.to_datetime\<close> and \<open>date\<close> after. \<^verbatim>\<open>pd.DataFrame()\<close> is the
  table with no columns and no rows.
\<close>

record 'd table =
  columns :: "string list"
  rows :: "('d \<times> (string \<Rightarrow> cell)) list"

type_synonym date = "int \<times> int \<times> int"

definition date_year :: "date \<Rightarrow> int" where
  "date_year d = fst d"

definition date_month :: "date \<Rightarrow> int" where
  "date_month d = fst (snd d)"

definition DataFrame :: "'d table" where
  "DataFrame = \<lparr>columns = [], rows = []\<rparr>"

definition df_empty :: "'d table \<Rightarrow> bool" where
  "df_empty t = (rows t = [])"

definition get_col :: "'d table \<Rightarrow> string \<Rightarrow> error + cell list" where
  "get_col t c = (if c \<in> set (columns t) then Inr (map (\<lambda>r. snd r c) (rows t)) else Inl KeyError)"

text \<open>\<^verbatim>\<open>df[c] = vs\<close>: an existing column is overwritten, a new one is appended.\<close>

definition set_col :: "'d table \<Rightarrow> string \<Rightarrow> cell list \<Rightarrow> 'd table" where
  "set_col t c vs =
     \<lparr>columns = (if c \<in> set (columns t) then columns t else columns t @ [c]),
      rows = map (\<lambda>(r, v). (fst r, (snd r)(c := v))) (zip (rows t) vs)\<rparr>"

text \<open>
  \<^verbatim>\<open>df.sort_values('Date')\<close> returns the sorted frame. pandas sorts with an unstable
  quicksort; the model is the stable insertion sort, which gives the same frame whenever
  the dates are distinct and the same rows in any case.
\<close>

definition sort_values :: "('d::linorder) table \<Rightarrow> 'd table" where
  "sort_values t = t\<lparr>rows := sort_key fst (rows t)\<rparr>"

text \<open>
  \<^verbatim>\<open>pd.concat([a, b])\<close>: the columns of \<open>a\<close>, then the new columns of \<open>b\<close>; the rows of
  \<open>a\<close>, then the rows of \<open>b\<close>; a cell of a column the row's frame did not have is NaN.
\<close>

definition fill :: "string list \<Rightarrow> 'd \<times> (string \<Rightarrow> cell) \<Rightarrow> 'd \<times> (string \<Rightarrow> cell)" where
  "fill cs r = (fst r, \<lambda>c. if c \<in> set cs then snd r c else Num NaN)"

definition concat_df :: "'d table \<Rightarrow> 'd table \<Rightarrow> 'd table" where
  "concat_df a b =
     \<lparr>columns = columns a @ filter (\<lambda>c. c \<notin> set (columns a)) (columns b),
      rows = map (fill (columns a)) (rows a) @ map (fill (columns b)) (rows b)\<rparr>"

text \<open>\<^verbatim>\<open>df.drop_duplicates(subset=["Date"], keep="last")\<close>: a row stays when no later
  row has its date.\<close>

fun drop_dup_last :: "('d \<times> 'r) list \<Rightarrow> ('d \<times> 'r) list" where
  "drop_dup_last [] = []"
| "drop_dup_last (r # rs) =
     (if fst r \<in> fst ` set rs then drop_dup_last rs else r # drop_dup_last rs)"

definition drop_duplicates :: "'d table \<Rightarrow> 'd table" where
  "drop_duplicates t = t\<lparr>rows := drop_dup_last (rows t)\<rparr>"

text \<open>The builtin \<^verbatim>\<open>max(df['Date'])\<close> raises on an empty column;
  \<^verbatim>\<open>df['Date'].max()\<close> is NaT (\<open>None\<close>) there.\<close>

fun py_max :: "('d::linorder) list \<Rightarrow> error + 'd" where
  "py_max [] = Inl ValueError"
| "py_max (x # xs) = Inr (fold max xs x)"

fun series_max :: "('d::linorder) list \<Rightarrow> 'd option" where
  "series_max [] = None"
| "series_max (x # xs) = Some (fold max xs x)"

section \<open>process\_data.py\<close>

text \<open>
  Column arithmetic. A column read from the CSV file is float64 when every cell parses
  as a number or is empty, and object (strings) otherwise; arithmetic on a string cell
  raises \<^verbatim>\<open>TypeError\<close>.
\<close>

fun as_num :: "cell \<Rightarrow> error + num" where
  "as_num (Num x) = Inr x"
| "as_num (Str s) = Inl TypeError"

fun as_nums :: "cell list \<Rightarrow> error + num list" where
  "as_nums [] = Inr []"
| "as_nums (c # cs) =
     and_then (as_num c) (\<lambda>x. and_then (as_nums cs) (\<lambda>xs. Inr (x # xs)))"

text \<open>\<^verbatim>\<open>series.iloc[-1]\<close>\<close>

definition iloc_last :: "'a list \<Rightarrow> error + 'a" where
  "iloc_last xs = (if xs = [] then Inl IndexError else Inr (last xs))"

text \<open>
  \<^verbatim>\<open>process_macro_data()\<close>: the argument is the content of \<^verbatim>\<open>raw_data.csv\<close> (\<open>None\<close>
  when the file does not exist), the result the content written to
  \<^verbatim>\<open>processed_data.csv\<close> (\<open>None\<close> when nothing is written).
\<close>

definition process_macro_data :: "date table option \<Rightarrow> error + date table option" where
  "process_macro_data file =
     (case file of
        None \<Rightarrow> Inr None
      | Some df0 \<Rightarrow>
         (let df = sort_values df0 in
          and_then (get_col df ''Hourly Earnings'') (\<lambda>hc.
          and_then (get_col df ''Hours Worked'') (\<lambda>wc.
          and_then (as_nums hc) (\<lambda>he.
          and_then (as_nums wc) (\<lambda>hw.
           (let we = map (\<lambda>(a, b). num_mul a b) (zip he hw);
                df = set_col df ''Weekly Earnings'' (map Num we) in
            and_then (get_col df ''CPI'') (\<lambda>cc.
            and_then (iloc_last cc) (\<lambda>lc.
            and_then (as_num lc) (\<lambda>latest_cpi.
            and_then (as_nums cc) (\<lambda>cpi.
             (let real = map (\<lambda>(w, c). num_mul (num_div w c) latest_cpi) (zip we cpi);
                  df = set_col df ''Real Weekly Earnings'' (map Num real);
                  df = set_col df ''Weekly Earnings'' (map (\<lambda>w. Num (num_round 2 w)) we);
                  df = set_col df ''Real Weekly Earnings''
                         (map (\<lambda>x. Num (num_round 2 x)) real)
              in Inr (Some df)))))))))))))"

section \<open>The API payload\<close>

text \<open>
  The JSON value handed to a parser: \<^verbatim>\<open>None\<close>, the empty object, an object with no
  \<^verbatim>\<open>Results\<close> key, or an object whose \<^verbatim>\<open>Results.series\<close> is a list of blocks with a
  \<^verbatim>\<open>seriesID\<close> and a list \<^verbatim>\<open>data\<close> of observations with the string fields \<^verbatim>\<open>year\<close>,
  \<^verbatim>\<open>period\<close> and \<^verbatim>\<open>value\<close> (\<open>val\<close> here).
\<close>

record item =
  year :: string
  period :: string
  val :: string

record series =
  seriesID :: string
  data :: "item list"

datatype json = JNone | JEmpty | JNoResults | JResults "series list"

definition SERIES_MAPPING :: "(string \<times> string) list" where
  "SERIES_MAPPING =
     [(''LNS14000000'', ''Unemployment Rate''),
      (''CES0000000001'', ''Employment Level''),
      (''CUUR0000SA0'', ''CPI''),
      (''CES0500000003'', ''Hourly Earnings''),
      (''CES0500000002'', ''Hours Worked'')]"

text \<open>\<^verbatim>\<open>collect_data.py\<close> names the same table \<^verbatim>\<open>series_keys\<close>.\<close>

definition series_keys :: "(string \<times> string) list" where
  "series_keys = SERIES_MAPPING"

text \<open>\<^verbatim>\<open>d.get(k, k)\<close>\<close>

definition get_or_self :: "(string \<times> string) list \<Rightarrow> string \<Rightarrow> string" where
  "get_or_self d k = (case map_of d k of Some v \<Rightarrow> v | None \<Rightarrow> k)"

subsection \<open>Strings and numbers\<close>

definition is_digit :: "char \<Rightarrow> bool" where
  "is_digit c = (CHR ''0'' \<le> c \<and> c \<le> CHR ''9'')"

definition digit_val :: "char \<Rightarrow> nat" where
  "digit_val c = of_char c - 48"

definition digits_val :: "string \<Rightarrow> nat" where
  "digits_val ds = foldl (\<lambda>a c. 10 * a + digit_val c) 0 ds"

definition is_space :: "char \<Rightarrow> bool" where
  "is_space c = (c = CHR '' '' \<or> c = CHR 0x09 \<or> c = CHR 0x0A \<or> c = CHR 0x0D)"

definition strip :: "string \<Rightarrow> string" where
  "strip s = rev (dropWhile is_space (rev (dropWhile is_space s)))"

text \<open>The sign of a numeric literal and the rest of it.\<close>

definition split_sign :: "string \<Rightarrow> bool \<times> string" where
  "split_sign s =
     (case s of
        [] \<Rightarrow> (False, [])
      | c # r \<Rightarrow> if c = CHR ''-'' then (True, r) else if c = CHR ''+'' then (False, r) else (False, s))"

text \<open>
  \<^verbatim>\<open>int(s)\<close> on a string: surrounding whitespace, an optional sign, decimal digits.
  (Python also accepts single underscores between digits; such literals are
  \<^verbatim>\<open>ValueError\<close> here.)
\<close>

definition py_int :: "string \<Rightarrow> error + int" where
  "py_int s =
     (let (neg, ds) = split_sign (strip s) in
      if ds \<noteq> [] \<and> list_all is_digit ds
      then Inr (if neg then - int (digits_val ds) else int (digits_val ds))
      else Inl ValueError)"

text \<open>\<^verbatim>\<open>period.replace('M', '')\<close>\<close>

definition replace_M :: "string \<Rightarrow> string" where
  "replace_M s = filter (\<lambda>c. c \<noteq> CHR ''M'') s"

function show_nat :: "nat \<Rightarrow> string" where
  "show_nat n =
     (if n < 10 then [''0123456789'' ! n] else show_nat (n div 10) @ [''0123456789'' ! (n mod 10)])"
  by pat_completeness auto
termination
  by (relation "measure id") auto

declare show_nat.simps [simp del]

definition show_int :: "int \<Rightarrow> string" where
  "show_int i = (if i < 0 then CHR ''-'' # show_nat (nat (- i)) else show_nat (nat i))"

text \<open>The format specification \<^verbatim>\<open>{month:02d}\<close>: zero padding to width two.\<close>

definition fmt_02d :: "int \<Rightarrow> string" where
  "fmt_02d i = (let s = show_int i in if length s < 2 then CHR ''0'' # s else s)"

text \<open>\<^verbatim>\<open>f"{year}-{month:02d}-01"\<close>\<close>

definition date_str :: "string \<Rightarrow> int \<Rightarrow> string" where
  "date_str y m = y @ ''-'' @ fmt_02d m @ ''-01''"

text \<open>
  \<^verbatim>\<open>pd.to_numeric(column, errors='coerce')\<close> on one cell, for plain decimal literals
  (sign, digits, optional fraction); every other string becomes NaN. (pandas also reads
  exponent notation and the literals of the special values; they are NaN here.)
\<close>

definition parse_decimal :: "string \<Rightarrow> rat option" where
  "parse_decimal s =
     (let (neg, body) = split_sign (strip s);
          ip = takeWhile (\<lambda>c. c \<noteq> CHR ''.'') body;
          fp = drop 1 (dropWhile (\<lambda>c. c \<noteq> CHR ''.'') body)
      in if (ip \<noteq> [] \<or> fp \<noteq> []) \<and> list_all is_digit ip \<and> list_all is_digit fp
         then Some ((if neg then - 1 else 1) *
                    (of_nat (digits_val ip) + of_nat (digits_val fp) / 10 ^ length fp))
         else None)"

fun to_numeric :: "cell \<Rightarrow> num" where
  "to_numeric (Num x) = x"
| "to_numeric (Str s) = (case parse_decimal s of Some r \<Rightarrow> Fin r | None \<Rightarrow> NaN)"

subsection \<open>Dates\<close>

definition days_in_month :: "int \<Rightarrow> int \<Rightarrow> int" where
  "days_in_month y m =
     (if m = 2 then (if y mod 4 = 0 \<and> (y mod 100 \<noteq> 0 \<or> y mod 400 = 0) then 29 else 28)
      else if m = 4 \<or> m = 6 \<or> m = 9 \<or> m = 11 then 30 else 31)"

text \<open>
  \<^verbatim>\<open>pd.to_datetime\<close> on one string of the form the parsers build, \<^verbatim>\<open>YYYY-MM-DD\<close>; a
  month or day out of range raises. (Strings of other forms, which pandas may still
  read, are \<^verbatim>\<open>ValueError\<close> here.)
\<close>

definition to_datetime :: "string \<Rightarrow> error + date" where
  "to_datetime s =
     (if length s = 10 \<and> s ! 4 = CHR ''-'' \<and> s ! 7 = CHR ''-'' \<and>
         list_all is_digit (take 4 s) \<and> list_all is_digit (take 2 (drop 5 s)) \<and>
         list_all is_digit (drop 8 s)
      then (let y = int (digits_val (take 4 s));
                m = int (digits_val (take 2 (drop 5 s)));
                d = int (digits_val (drop 8 s))
            in if 1 \<le> m \<and> m \<le> 12 \<and> 1 \<le> d \<and> d \<le> days_in_month y m
               then Inr (y, m, d) else Inl ValueError)
      else Inl ValueError)"

fun to_datetime_rows ::
  "(string \<times> (string \<Rightarrow> cell)) list \<Rightarrow> error + (date \<times> (string \<Rightarrow> cell)) list" where
  "to_datetime_rows [] = Inr []"
| "to_datetime_rows (r # rs) =
     and_then (to_datetime (fst r)) (\<lambda>d.
     and_then (to_datetime_rows rs) (\<lambda>rs'. Inr ((d, snd r) # rs')))"

text \<open>\<^verbatim>\<open>df['Date'] = pd.to_datetime(df['Date'])\<close>\<close>

definition to_datetime_col :: "string table \<Rightarrow> error + date table" where
  "to_datetime_col t =
     and_then (to_datetime_rows (rows t)) (\<lambda>rs. Inr \<lparr>columns = columns t, rows = rs\<rparr>)"

text \<open>\<^verbatim>\<open>datetime.now() - pd.DateOffset(months=1)\<close>: the same day of the previous month,
  or the last day of that month when it is shorter.\<close>

definition minus_one_month :: "date \<Rightarrow> date" where
  "minus_one_month n =
     (case n of (y, m, d) \<Rightarrow>
        (let y' = (if m = 1 then y - 1 else y); m' = (if m = 1 then 12 else m - 1)
         in (y', m', min d (days_in_month y' m'))))"

subsection \<open>Long records and the pivot\<close>

text \<open>A long-format record \<^verbatim>\<open>{'Date': d, 'Series': s, 'Value': v}\<close> is the triple
  \<open>(d, s, v)\<close>.\<close>

type_synonym long_record = "string \<times> string \<times> string"

definition rec_key :: "long_record \<Rightarrow> string \<times> string" where
  "rec_key r = (fst r, fst (snd r))"

text \<open>
  \<^verbatim>\<open>pd.DataFrame(records).pivot(index='Date', columns='Series', values='Value')\<close>: a
  frame built from no records has no columns, so the pivot raises \<^verbatim>\<open>KeyError\<close>; two
  records with the same date and series raise \<^verbatim>\<open>ValueError\<close>; otherwise the index and
  the columns are the sorted distinct dates and series, and a cell with no record is
  NaN.
\<close>

definition pivot :: "long_record list \<Rightarrow> error + string table" where
  "pivot records =
     (if records = [] then Inl KeyError
      else if \<not> distinct (map rec_key records) then Inl ValueError
      else Inr \<lparr>columns = sort (remdups (map (\<lambda>r. fst (snd r)) records)),
                rows = map (\<lambda>d. (d, \<lambda>s. case map_of (map (\<lambda>r. (rec_key r, snd (snd r))) records) (d, s)
                                          of Some v \<Rightarrow> Str v | None \<Rightarrow> Num NaN))
                         (sort (remdups (map fst records)))\<rparr>)"

text \<open>\<^verbatim>\<open>reset_index\<close> turns the index into the column \<^verbatim>\<open>Date\<close> and raises when a
  column of that name is there already.\<close>

definition reset_index :: "string table \<Rightarrow> error + string table" where
  "reset_index t = (if ''Date'' \<in> set (columns t) then Inl ValueError else Inr t)"

section \<open>initial\_raw\_data.py and update\_raw\_data.py\<close>

text \<open>The inner loop of \<^verbatim>\<open>parse_bls_response\<close> and of \<^verbatim>\<open>parse_and_process\<close>, which
  is the same code in both files.\<close>

fun monthly_records :: "string \<Rightarrow> item list \<Rightarrow> error + long_record list" where
  "monthly_records col_name [] = Inr []"
| "monthly_records col_name (it # its) =
     (if CHR ''M'' \<in> set (period it) \<and> period it \<noteq> ''M13''
      then and_then (py_int (replace_M (period it))) (\<lambda>month.
           and_then (monthly_records col_name its) (\<lambda>rs.
             Inr ((date_str (year it) month, col_name, val it) # rs)))
      else monthly_records col_name its)"

text \<open>The outer loop of both.\<close>

fun series_records :: "series list \<Rightarrow> error + long_record list" where
  "series_records [] = Inr []"
| "series_records (s # ss) =
     and_then (monthly_records (get_or_self SERIES_MAPPING (seriesID s)) (data s)) (\<lambda>rs.
     and_then (series_records ss) (\<lambda>rs'. Inr (rs @ rs')))"

text \<open>\<^verbatim>\<open>not json_data or 'Results' not in json_data\<close>\<close>

fun no_results :: "json \<Rightarrow> bool" where
  "no_results (JResults ss) = False"
| "no_results j = True"

definition parse_bls_response :: "json \<Rightarrow> error + long_record list" where
  "parse_bls_response json_data =
     (if no_results json_data then Inr []
      else case json_data of JResults ss \<Rightarrow> series_records ss | _ \<Rightarrow> Inr [])"

definition parse_and_process :: "json \<Rightarrow> error + string table" where
  "parse_and_process json_data =
     (if no_results json_data then Inr DataFrame
      else case json_data of
        JResults ss \<Rightarrow>
          and_then (series_records ss) (\<lambda>records.
            if records = [] then Inr DataFrame
            else and_then (pivot records) reset_index)
      | _ \<Rightarrow> Inr DataFrame)"

text \<open>What a script prints at its end.\<close>

datatype msg =
    UpToDate | UpdatedData int int | NoNewDataAvailable | CreatedData int int
  | FileNotFound | NoNewDataReturned | AlreadyUpToDate | Appended nat
  | ImportSuccess nat | ImportFailure

text \<open>
  \<^verbatim>\<open>main()\<close> of \<^verbatim>\<open>update_raw_data.py\<close>. \<open>fetch\<close> is the API behind \<^verbatim>\<open>fetch_bls_data\<close>
  (which returns \<^verbatim>\<open>None\<close> when the request fails); its start year is the year of the
  last date, which is not a number when the file has no rows. The other arguments are
  the current year and the content of \<^verbatim>\<open>raw_data.csv\<close> with its dates parsed, the
  result is the content of the file after the run and the last message.
\<close>

definition update_raw_data_main ::
  "(int option \<Rightarrow> int \<Rightarrow> json) \<Rightarrow> int \<Rightarrow> date table option
     \<Rightarrow> error + (date table option \<times> msg)" where
  "update_raw_data_main fetch current_year file =
     (case file of
        None \<Rightarrow> Inr (None, FileNotFound)
      | Some df_existing \<Rightarrow>
         (let last_date = series_max (map fst (rows df_existing));
              start_year = map_option date_year last_date;
              json_data = fetch start_year current_year in
          and_then (parse_and_process json_data) (\<lambda>df_new.
            if df_empty df_new then Inr (file, NoNewDataReturned)
            else and_then (to_datetime_col df_new) (\<lambda>df_new.
              (let df_new = df_new\<lparr>rows := filter (\<lambda>r. case last_date of None \<Rightarrow> False
                                                        | Some l \<Rightarrow> l < fst r) (rows df_new)\<rparr>
               in if df_empty df_new then Inr (file, AlreadyUpToDate)
                  else (let df_combined = sort_values (concat_df df_existing df_new)
                        in Inr (Some df_combined, Appended (length (rows df_new)))))))))"

text \<open>The chunks of \<^verbatim>\<open>for y in range(START_YEAR, END_YEAR + 1, 10)\<close> with
  \<^verbatim>\<open>chunk_end = min(y + 9, END_YEAR)\<close>.\<close>

function chunks :: "int \<Rightarrow> int \<Rightarrow> (int \<times> int) list" where
  "chunks y end_year =
     (if y \<le> end_year then (y, min (y + 9) end_year) # chunks (y + 10) end_year else [])"
  by pat_completeness auto
termination
  by (relation "measure (\<lambda>(y, e). nat (e + 1 - y))") auto

declare chunks.simps [simp del]

fun chunk_records :: "(int \<Rightarrow> int \<Rightarrow> json) \<Rightarrow> (int \<times> int) list \<Rightarrow> error + long_record list" where
  "chunk_records fetch [] = Inr []"
| "chunk_records fetch (c # cs) =
     and_then (parse_bls_response (fetch (fst c) (snd c))) (\<lambda>records.
     and_then (chunk_records fetch cs) (\<lambda>rest. Inr (records @ rest)))"

text \<open>The table \<^verbatim>\<open>main()\<close> of \<^verbatim>\<open>initial_raw_data.py\<close> builds from the records.\<close>

definition wide_table :: "long_record list \<Rightarrow> error + date table" where
  "wide_table all_records =
     and_then (pivot all_records) (\<lambda>df.
     and_then (reset_index df) (\<lambda>df_wide.
     and_then (to_datetime_col df_wide) (\<lambda>df_wide. Inr (sort_values df_wide))))"

text \<open>\<^verbatim>\<open>main()\<close> of \<^verbatim>\<open>initial_raw_data.py\<close> for a year span; the result is the
  content of \<^verbatim>\<open>raw_data.csv\<close> after the run.\<close>

definition import_span ::
  "int \<Rightarrow> int \<Rightarrow> (int \<Rightarrow> int \<Rightarrow> json) \<Rightarrow> date table option
     \<Rightarrow> error + (date table option \<times> msg)" where
  "import_span start_year end_year fetch file =
     and_then (chunk_records fetch (chunks start_year end_year)) (\<lambda>all_records.
       if all_records \<noteq> []
       then and_then (wide_table all_records) (\<lambda>df_wide.
              Inr (Some df_wide, ImportSuccess (length (rows df_wide))))
       else Inr (file, ImportFailure))"

definition START_YEAR :: int where
  "START_YEAR = 2008"

definition END_YEAR :: int where
  "END_YEAR = 2024"

definition initial_raw_data_main ::
  "(int \<Rightarrow> int \<Rightarrow> json) \<Rightarrow> date table option \<Rightarrow> error + (date table option \<times> msg)" where
  "initial_raw_data_main = import_span START_YEAR END_YEAR"

section \<open>collect\_data.py\<close>

text \<open>The loops of \<^verbatim>\<open>parse_json\<close>: no test of the period.\<close>

fun json_items :: "string \<Rightarrow> item list \<Rightarrow> error + long_record list" where
  "json_items col_names [] = Inr []"
| "json_items col_names (it # its) =
     and_then (py_int (replace_M (period it))) (\<lambda>month.
     and_then (json_items col_names its) (\<lambda>rs.
       Inr ((date_str (year it) month, col_names, val it) # rs)))"

fun json_records :: "series list \<Rightarrow> error + long_record list" where
  "json_records [] = Inr []"
| "json_records (s # ss) =
     and_then (json_items (get_or_self series_keys (seriesID s)) (data s)) (\<lambda>rs.
     and_then (json_records ss) (\<lambda>rs'. Inr (rs @ rs')))"

text \<open>\<^verbatim>\<open>json_data['Results']['series']\<close>\<close>

fun results_series :: "json \<Rightarrow> error + series list" where
  "results_series JNone = Inl TypeError"
| "results_series JEmpty = Inl KeyError"
| "results_series JNoResults = Inl KeyError"
| "results_series (JResults ss) = Inr ss"

text \<open>\<^verbatim>\<open>table[c] = pd.to_numeric(table[c], errors='coerce')\<close>\<close>

definition numeric_col :: "'d table \<Rightarrow> string \<Rightarrow> error + 'd table" where
  "numeric_col t c =
     and_then (get_col t c) (\<lambda>vs. Inr (set_col t c (map (\<lambda>v. Num (to_numeric v)) vs)))"

definition parse_json :: "json \<Rightarrow> error + date table" where
  "parse_json json_data =
     and_then (results_series json_data) (\<lambda>ss.
     and_then (json_records ss) (\<lambda>records.
     and_then (pivot records) (\<lambda>t.
     and_then (reset_index t) (\<lambda>t.
     and_then (to_datetime_col t) (\<lambda>t.
     and_then (numeric_col t ''Hourly Earnings'') (\<lambda>t.
     and_then (numeric_col t ''Hours Worked'') (\<lambda>t.
     and_then (get_col t ''Hourly Earnings'') (\<lambda>hc.
     and_then (get_col t ''Hours Worked'') (\<lambda>wc.
       Inr (set_col t ''Weekly Income''
             (map (\<lambda>(h, w). Num (num_round 0 (num_mul (to_numeric h) (to_numeric w))))
                  (zip hc wc))))))))))))"

definition default_start_year :: int where
  "default_start_year = 2008"

text \<open>
  The loop of \<^verbatim>\<open>initial_data()\<close>; \<open>request_json\<close> is the API behind the function of
  that name, \<open>default_end_year\<close> the current year.
\<close>

function initial_loop ::
  "(int \<Rightarrow> int \<Rightarrow> json) \<Rightarrow> int \<Rightarrow> int \<Rightarrow> date table \<Rightarrow> error + date table" where
  "initial_loop request_json default_end_year start_year df =
     (if start_year \<le> default_end_year
      then and_then (parse_json (request_json start_year (min (start_year + 9) default_end_year)))
             (\<lambda>new_df. initial_loop request_json default_end_year (start_year + 10)
                          (concat_df df new_df))
      else Inr df)"
  by pat_completeness auto
termination
  by (relation "measure (\<lambda>(r, e, y, d). nat (e + 1 - y))") auto

declare initial_loop.simps [simp del]

text \<open>
  \<^verbatim>\<open>initial_data()\<close>. The frame returned by \<^verbatim>\<open>df.sort_values('Date')\<close> is dropped, so the
  frame written is the concatenation as it is; the call still raises \<^verbatim>\<open>KeyError\<close> on a
  frame without the column, which is the frame of a loop that never ran.
\<close>

definition initial_data ::
  "(int \<Rightarrow> int \<Rightarrow> json) \<Rightarrow> int \<Rightarrow> error + (date table option \<times> msg)" where
  "initial_data request_json default_end_year =
     and_then (initial_loop request_json default_end_year default_start_year DataFrame) (\<lambda>df.
       if default_end_year < default_start_year then Inl KeyError
       else Inr (Some df, CreatedData default_start_year default_end_year))"

text \<open>
  \<^verbatim>\<open>update_data()\<close> on the content \<open>df\<close> of \<^verbatim>\<open>data.csv\<close>. Here too the sorted frame is
  dropped and the frame written is the one left by \<^verbatim>\<open>drop_duplicates\<close>.
\<close>

definition update_data ::
  "(int \<Rightarrow> int \<Rightarrow> json) \<Rightarrow> int \<Rightarrow> date table \<Rightarrow> error + (date table option \<times> msg)" where
  "update_data request_json now_year df =
     and_then (py_max (map fst (rows df))) (\<lambda>max_date.
       (let start_year = date_year max_date; end_year = now_year in
        and_then (parse_json (request_json start_year end_year)) (\<lambda>new_df.
          if \<not> df_empty new_df
          then (let df = concat_df df new_df;
                    df = drop_duplicates df
                in Inr (Some df, UpdatedData start_year end_year))
          else Inr (Some df, NoNewDataAvailable))))"

text \<open>
  \<^verbatim>\<open>collect_data()\<close>: \<open>now\<close> is \<^verbatim>\<open>datetime.now()\<close>, \<open>file\<close> the content of \<^verbatim>\<open>data.csv\<close>
  (\<open>None\<close> when \<^verbatim>\<open>os.path.isfile\<close> is false).
\<close>

definition month_diff :: "date \<Rightarrow> date \<Rightarrow> int" where
  "month_diff current_date data_date =
     (date_year current_date - date_year data_date) * 12
       + (date_month current_date - date_month data_date)"

definition collect_data ::
  "(int \<Rightarrow> int \<Rightarrow> json) \<Rightarrow> date \<Rightarrow> date table option \<Rightarrow> error + (date table option \<times> msg)" where
  "collect_data request_json now file =
     (case file of
        Some df \<Rightarrow>
          (let current_date = minus_one_month now in
           and_then (py_max (map fst (rows df))) (\<lambda>data_date.
             if month_diff current_date data_date < 1
             then Inr (Some df, UpToDate)
             else update_data request_json (date_year now) df))
      | None \<Rightarrow> initial_data request_json (date_year now))"

section \<open>Float columns\<close>

text \<open>A column of dtype float64: it is there and each of its cells is a float.\<close>

fun is_float :: "cell \<Rightarrow> bool" where
  "is_float (Num x) = True"
| "is_float (Str s) = False"

fun the_num :: "cell \<Rightarrow> num" where
  "the_num (Num x) = x"
| "the_num (Str s) = NaN"

definition float_column :: "string \<Rightarrow> 'd table \<Rightarrow> bool" where
  "float_column c t = (c \<in> set (columns t) \<and> list_all (\<lambda>r. is_float (snd r c)) (rows t))"

fun is_inf :: "cell \<Rightarrow> bool" where
  "is_inf (Num PInf) = True"
| "is_inf (Num NInf) = True"
| "is_inf c = False"

text \<open>The row \<^verbatim>\<open>process_macro_data\<close> writes for a row of the sorted frame, given the
  latest CPI.\<close>

definition derived_row :: "num \<Rightarrow> 'd \<times> (string \<Rightarrow> cell) \<Rightarrow> 'd \<times> (string \<Rightarrow> cell)" where
  "derived_row lc r =
     (let we = num_mul (the_num (snd r ''Hourly Earnings'')) (the_num (snd r ''Hours Worked''));
          real = num_mul (num_div we (the_num (snd r ''CPI''))) lc
      in (fst r, (snd r)(''Weekly Earnings'' := Num (num_round 2 we),
                         ''Real Weekly Earnings'' := Num (num_round 2 real))))"

section \<open>Projections and concrete inputs\<close>

definition dates_of :: "'d table \<Rightarrow> 'd list" where
  "dates_of t = map fst (rows t)"

definition cells_of :: "string \<Rightarrow> 'd table \<Rightarrow> cell list" where
  "cells_of c t = map (\<lambda>r. snd r c) (rows t)"

text \<open>An observation, a series block, and the cells of a row of \<^verbatim>\<open>raw_data.csv\<close> with
  hourly earnings, hours worked and CPI.\<close>

definition obs :: "string \<Rightarrow> string \<Rightarrow> string \<Rightarrow> item" where
  "obs y p v = \<lparr>year = y, period = p, val = v\<rparr>"

definition block :: "string \<Rightarrow> item list \<Rightarrow> series" where
  "block sid its = \<lparr>seriesID = sid, data = its\<rparr>"

definition raw_cells :: "num \<Rightarrow> num \<Rightarrow> num \<Rightarrow> string \<Rightarrow> cell" where
  "raw_cells h w c k =
     (if k = ''Hourly Earnings'' then Num h else if k = ''Hours Worked'' then Num w
      else if k = ''CPI'' then Num c else Num NaN)"

definition raw_columns :: "string list" where
  "raw_columns = [''CPI'', ''Hourly Earnings'', ''Hours Worked'']"

text \<open>A snapshot that ends at 2024-06-01.\<close>

definition snapshot_june :: "date table" where
  "snapshot_june =
     \<lparr>columns = raw_columns,
      rows = [((2024, 5, 1), raw_cells (Fin 35) (Fin 34) (Fin 313)),
              ((2024, 6, 1), raw_cells (Fin 35) (Fin 34) (Fin 314))]\<rparr>"

text \<open>A snapshot of January and February 2024, and a response for 2024 that holds
  January only.\<close>

definition snapshot_jan_feb :: "date table" where
  "snapshot_jan_feb =
     \<lparr>columns = raw_columns,
      rows = [((2024, 1, 1), raw_cells (Fin 34) (Fin 34) (Fin 308)),
              ((2024, 2, 1), raw_cells (Fin 35) (Fin 34) (Fin 310))]\<rparr>"

definition january_only :: "int \<Rightarrow> int \<Rightarrow> json" where
  "january_only start_year end_year =
     JResults [block ''CUUR0000SA0'' [obs ''2024'' ''M01'' ''308.4''],
               block ''CES0500000003'' [obs ''2024'' ''M01'' ''34.5''],
               block ''CES0500000002'' [obs ''2024'' ''M01'' ''34.25'']]"

text \<open>A response with the annual average \<^verbatim>\<open>M13\<close> of 2019 beside a month.\<close>

definition with_annual_average :: json where
  "with_annual_average =
     JResults [block ''CES0500000003'' [obs ''2019'' ''M13'' ''28.0'', obs ''2019'' ''M12'' ''28.5''],
               block ''CES0500000002'' [obs ''2019'' ''M13'' ''34.4'', obs ''2019'' ''M12'' ''34.5'']]"

text \<open>A response with one month of hourly earnings 10.5 and hours worked 2.5.\<close>

definition one_month :: json where
  "one_month =
     JResults [block ''CES0500000003'' [obs ''2019'' ''M01'' ''10.5''],
               block ''CES0500000002'' [obs ''2019'' ''M01'' ''2.5'']]"

text \<open>Two months with the same CPI.\<close>

definition same_cpi :: "date table" where
  "same_cpi =
     \<lparr>columns = raw_columns,
      rows = [((2024, 1, 1), raw_cells (Fin 10) (Fin 10) (Fin 100)),
              ((2024, 2, 1), raw_cells (Fin 20) (Fin 10) (Fin 100))]\<rparr>"

section \<open>Sequencing and maxima\<close>

lemma and_then_Inl [simp]: "and_then (Inl e) f = Inl e"
  by (simp add: and_then_def)

lemma and_then_Inr [simp]: "and_then (Inr x) f = f x"
  by (simp add: and_then_def)

lemma and_then_eq_Inr: "and_then m f = Inr y \<longleftrightarrow> (\<exists>x. m = Inr x \<and> f x = Inr y)"
  by (cases m) auto

lemma py_max_nonempty:
  assumes "xs \<noteq> []"
  shows "py_max xs = Inr (Max (set xs))"
proof -
  from assms obtain a list where xs: "xs = a # list"
    by (cases xs) auto
  have "Max (set (a # list)) = fold max list a"
    by (rule Max.set_eq_fold)
  then show ?thesis
    unfolding xs by simp
qed

section \<open>The parsers on malformed and non-monthly input\<close>

lemma parse_and_process_no_results: "no_results j \<Longrightarrow> parse_and_process j = Inr DataFrame"
  by (simp add: parse_and_process_def)

lemma parse_bls_response_no_results: "no_results j \<Longrightarrow> parse_bls_response j = Inr []"
  by (simp add: parse_bls_response_def)

text \<open>
  C2. The parser is to emit a record exactly for the periods \<^verbatim>\<open>M01\<close> to \<^verbatim>\<open>M12\<close>, and
  never for the annual average \<^verbatim>\<open>M13\<close>. \<^verbatim>\<open>parse_json\<close> of \<^verbatim>\<open>collect_data.py\<close> has no test
  of the period: an \<^verbatim>\<open>M13\<close> observation of 2019 becomes a record dated
  \<^verbatim>\<open>2019-13-01\<close>, on which \<^verbatim>\<open>pd.to_datetime\<close> then raises, so the whole response yields
  no table. The test of the two other parsers lets \<^verbatim>\<open>M14\<close> through.
\<close>

theorem parse_json_keeps_annual_average:
  "json_records [block ''CUUR0000SA0'' [obs ''2019'' ''M13'' ''255.657'']]
     = Inr [(''2019-13-01'', ''CPI'', ''255.657'')]
   \<and> map_sum id dates_of (parse_json with_annual_average) = Inl ValueError
   \<and> series_records [block ''CUUR0000SA0'' [obs ''2019'' ''M14'' ''255.657'']]
     = Inr [(''2019-14-01'', ''CPI'', ''255.657'')]"
  by code_simp

text \<open>
  C3. A response that is null, empty or without the key \<^verbatim>\<open>Results\<close> is to give an empty
  table and no exception. \<^verbatim>\<open>parse_and_process\<close> does so (lemma
  \<open>parse_and_process_no_results\<close>); \<^verbatim>\<open>parse_json\<close> of \<^verbatim>\<open>collect_data.py\<close> subscripts the
  response without a test and raises.
\<close>

theorem parse_json_raises_without_results:
  "parse_json JEmpty = Inl KeyError \<and> parse_json JNoResults = Inl KeyError
   \<and> parse_json JNone = Inl TypeError"
  by (simp add: parse_json_def)

section \<open>The orchestrator\<close>

lemma update_data_not_UpToDate: "update_data rq y df \<noteq> Inr (f, UpToDate)"
  by (auto simp: update_data_def and_then_eq_Inr Let_def split: if_splits)

lemma month_diff_minus_one_month:
  "month_diff (minus_one_month (y, m, d)) (y', m', d') = (12 * y + m - 1) - (12 * y' + m')"
  by (simp add: month_diff_def minus_one_month_def date_year_def date_month_def Let_def)

text \<open>
  C4. For a snapshot with at least one row, \<^verbatim>\<open>collect_data\<close> reports that the data is up
  to date, without a request and without a change of the file, exactly when the number
  of whole months from the latest date of the snapshot to the month before now is less
  than one. Months are counted as \<open>12 * year + month\<close>.
\<close>

theorem collect_data_fresh_iff:
  assumes "rows df \<noteq> []"
  shows "(collect_data request_json now (Some df) = Inr (Some df, UpToDate)) \<longleftrightarrow>
         (12 * date_year now + date_month now - 1)
           - (12 * date_year (Max (set (dates_of df))) + date_month (Max (set (dates_of df)))) < 1"
proof -
  obtain y m d where now: "now = (y, m, d)"
    by (cases now) auto
  obtain y' m' d' where mx: "Max (set (dates_of df)) = (y', m', d')"
    by (cases "Max (set (dates_of df))") auto
  have pm: "py_max (map fst (rows df)) = Inr (y', m', d')"
    using assms mx by (simp add: py_max_nonempty dates_of_def)
  show ?thesis
    by (simp add: collect_data_def pm now mx month_diff_minus_one_month
        update_data_not_UpToDate date_year_def date_month_def)
qed

text \<open>The snapshot that ends at 2024-06-01 is fresh on 2024-06-15 and stale on
  2024-08-01.\<close>

theorem collect_data_fresh_iff_witness:
  "collect_data january_only (2024, 6, 15) (Some snapshot_june)
     = Inr (Some snapshot_june, UpToDate)
   \<and> collect_data january_only (2024, 8, 1) (Some snapshot_june)
     \<noteq> Inr (Some snapshot_june, UpToDate)"
proof -
  have r: "rows snapshot_june \<noteq> []"
    by (simp add: snapshot_june_def)
  have mx: "Max (set (dates_of snapshot_june)) = (2024, 6, 1)"
    by (simp add: snapshot_june_def dates_of_def)
  show ?thesis
    using collect_data_fresh_iff [OF r, of january_only "(2024, 6, 15)"]
      collect_data_fresh_iff [OF r, of january_only "(2024, 8, 1)"]
    by (simp add: mx date_year_def date_month_def)
qed

section \<open>The derived columns\<close>


lemma as_nums_Num: "as_nums (map Num xs) = Inr xs"
  by (induction xs) simp_all

lemma float_cells:
  assumes "list_all (\<lambda>r. is_float (snd r c)) rs"
  shows "map (\<lambda>r. snd r c) rs = map Num (map (\<lambda>r. the_num (snd r c)) rs)"
  using assms
proof (induction rs)
  case Nil
  then show ?case by simp
next
  case (Cons r rs)
  then show ?case by (cases "snd r c") simp_all
qed

lemma set_col_map:
  assumes "rows t = map F rs"
  shows "set_col t c (map G rs) =
     \<lparr>columns = (if c \<in> set (columns t) then columns t else columns t @ [c]),
      rows = map (\<lambda>r. (fst (F r), (snd (F r))(c := G r))) rs\<rparr>"
  by (simp add: set_col_def assms zip_map_map zip_same_conv_map o_def)

lemma get_col_float:
  assumes "float_column c t"
  shows "get_col (sort_values t) c
           = Inr (map Num (map (\<lambda>r. the_num (snd r c)) (sort_key fst (rows t))))"
proof -
  have "list_all (\<lambda>r. is_float (snd r c)) (sort_key fst (rows t))"
    using assms by (simp add: float_column_def list_all_iff)
  from float_cells [OF this] show ?thesis
    using assms by (simp add: get_col_def sort_values_def float_column_def)
qed

lemma process_macro_data_float:
  assumes he: "float_column ''Hourly Earnings'' df"
    and hw: "float_column ''Hours Worked'' df"
    and cpi: "float_column ''CPI'' df"
    and ne: "rows df \<noteq> []"
  shows "\<exists>cs. process_macro_data (Some df) =
           Inr (Some \<lparr>columns = cs,
                      rows = map (derived_row (the_num (snd (last (sort_key fst (rows df))) ''CPI'')))
                               (sort_key fst (rows df))\<rparr>)"
proof -
  define rs where "rs = sort_key fst (rows df)"
  define Hs where "Hs = map (\<lambda>r. the_num (snd r ''Hourly Earnings'')) rs"
  define Ws where "Ws = map (\<lambda>r. the_num (snd r ''Hours Worked'')) rs"
  define Cs where "Cs = map (\<lambda>r. the_num (snd r ''CPI'')) rs"
  define lc where "lc = the_num (snd (last rs) ''CPI'')"
  define WEs where "WEs = map (\<lambda>r. num_mul (the_num (snd r ''Hourly Earnings''))
                                   (the_num (snd r ''Hours Worked''))) rs"
  define Rs where "Rs = map (\<lambda>r. num_mul (num_div (num_mul (the_num (snd r ''Hourly Earnings''))
                                   (the_num (snd r ''Hours Worked''))) (the_num (snd r ''CPI''))) lc) rs"
  have rs_ne: "rs \<noteq> []"
    using ne by (auto simp: rs_def dest: arg_cong [where f = length])
  have hc: "get_col (sort_values df) ''Hourly Earnings'' = Inr (map Num Hs)"
    unfolding Hs_def rs_def by (rule get_col_float [OF he])
  have wc: "get_col (sort_values df) ''Hours Worked'' = Inr (map Num Ws)"
    unfolding Ws_def rs_def by (rule get_col_float [OF hw])
  have we_eq: "map (\<lambda>(a, b). num_mul a b) (zip Hs Ws) = WEs"
    by (simp add: Hs_def Ws_def WEs_def zip_map_map zip_same_conv_map o_def)
  have r0: "rows (sort_values df) = map (\<lambda>r. r) rs"
    by (simp add: sort_values_def rs_def)
  define t1 where "t1 = set_col (sort_values df) ''Weekly Earnings'' (map Num WEs)"
  have t1: "rows t1 = map (\<lambda>r. (fst r, (snd r)(''Weekly Earnings'' :=
              Num (num_mul (the_num (snd r ''Hourly Earnings'')) (the_num (snd r ''Hours Worked'')))))) rs"
    unfolding t1_def WEs_def map_map o_def by (subst set_col_map [OF r0]) simp
  have c1: "''CPI'' \<in> set (columns t1)"
    using cpi by (simp add: t1_def set_col_def float_column_def sort_values_def)
  have cc: "get_col t1 ''CPI'' = Inr (map Num Cs)"
  proof -
    have "get_col (sort_values df) ''CPI'' = Inr (map Num Cs)"
      unfolding Cs_def rs_def by (rule get_col_float [OF cpi])
    then show ?thesis
      using c1 by (simp add: get_col_def t1 r0 o_def split: if_splits)
  qed
  have il: "iloc_last (map Num Cs) = Inr (Num lc)"
    using rs_ne by (simp add: iloc_last_def Cs_def lc_def last_map)
  have real_eq: "map (\<lambda>(w, c). num_mul (num_div w c) lc) (zip WEs Cs) = Rs"
    by (simp add: WEs_def Cs_def Rs_def zip_map_map zip_same_conv_map o_def)
  define t2 where "t2 = set_col t1 ''Real Weekly Earnings'' (map Num Rs)"
  define t3 where "t3 = set_col t2 ''Weekly Earnings'' (map (\<lambda>w. Num (num_round 2 w)) WEs)"
  define t4 where "t4 = set_col t3 ''Real Weekly Earnings'' (map (\<lambda>x. Num (num_round 2 x)) Rs)"
  have t2: "rows t2 = map (\<lambda>r. (fst r, (snd r)(''Weekly Earnings'' :=
              Num (num_mul (the_num (snd r ''Hourly Earnings'')) (the_num (snd r ''Hours Worked''))),
              ''Real Weekly Earnings'' := Num (num_mul (num_div (num_mul (the_num (snd r ''Hourly Earnings''))
                                   (the_num (snd r ''Hours Worked''))) (the_num (snd r ''CPI''))) lc)))) rs"
    unfolding t2_def Rs_def map_map o_def by (subst set_col_map [OF t1]) simp
  have t3: "rows t3 = map (\<lambda>r. (fst r, (snd r)(''Weekly Earnings'' :=
              Num (num_round 2 (num_mul (the_num (snd r ''Hourly Earnings'')) (the_num (snd r ''Hours Worked'')))),
              ''Real Weekly Earnings'' := Num (num_mul (num_div (num_mul (the_num (snd r ''Hourly Earnings''))
                                   (the_num (snd r ''Hours Worked''))) (the_num (snd r ''CPI''))) lc)))) rs"
    unfolding t3_def WEs_def map_map o_def by (subst set_col_map [OF t2]) (simp add: fun_upd_twist)
  have t4: "rows t4 = map (derived_row lc) rs"
    unfolding t4_def Rs_def map_map o_def
    by (subst set_col_map [OF t3]) (simp add: derived_row_def Let_def)
  have "process_macro_data (Some df) = Inr (Some t4)"
    unfolding process_macro_data_def
    by (simp only: option.case Let_def hc wc and_then_Inr as_nums_Num we_eq cc il as_num.simps
        real_eq t1_def [symmetric] t2_def [symmetric] t3_def [symmetric] t4_def [symmetric])
  moreover have "t4 = \<lparr>columns = columns t4, rows = map (derived_row lc) rs\<rparr>"
    using t4 by (cases t4) simp
  ultimately show ?thesis
    unfolding lc_def rs_def by metis
qed

section \<open>Order of the persisted snapshot\<close>

text \<open>
  C9. Every persisted snapshot is to have strictly increasing dates. \<^verbatim>\<open>update_data\<close> of
  \<^verbatim>\<open>collect_data.py\<close> calls \<^verbatim>\<open>df.sort_values('Date')\<close> and drops the sorted frame, so it
  writes the rows in the order \<^verbatim>\<open>drop_duplicates\<close> leaves them: on a snapshot of January
  and February 2024 and a response that holds January 2024, February comes first.
\<close>

theorem update_data_writes_unsorted:
  "map_sum id (map_option dates_of \<circ> fst) (update_data january_only 2024 snapshot_jan_feb)
     = Inr (Some [(2024, 2, 1), (2024, 1, 1)])"
  by code_simp

end
